theory Spec2Isabelle
  imports Main
begin

section \<open>Python values and exceptions\<close>

text \<open>
  The script \<^verbatim>\<open>serve.py\<close> is dynamically typed: the value that the base handler's
  \<^verbatim>\<open>guess_type\<close> hands back is destructured at run time, and the two branches of the
  override return values of different shapes. The values that occur are therefore kept
  in one datatype, and the exceptions the script can meet in another.
\<close>

datatype pyval = PyNone | PyStr string | PyTuple "pyval list"

datatype exn = ValueError | TypeError | KeyboardInterrupt | OSError string

text \<open>
  The assignment \<^verbatim>\<open>mimetype, encoding = v\<close> iterates over \<^verbatim>\<open>v\<close> and needs exactly two
  items: a tuple of two elements gives them, a string of two characters gives its two
  one-character strings, any other tuple or string raises \<^verbatim>\<open>ValueError\<close>, and
  \<^verbatim>\<open>None\<close> is not iterable (\<^verbatim>\<open>TypeError\<close>).
\<close>

fun unpack2 :: "pyval \<Rightarrow> exn + (pyval \<times> pyval)" where
  "unpack2 (PyTuple [a, b]) = Inr (a, b)"
| "unpack2 (PyTuple _) = Inl ValueError"
| "unpack2 (PyStr [c, d]) = Inr (PyStr [c], PyStr [d])"
| "unpack2 (PyStr _) = Inl ValueError"
| "unpack2 PyNone = Inl TypeError"

text \<open>\<^verbatim>\<open>s.endswith(suf)\<close>: the last \<open>length suf\<close> characters of \<open>s\<close> are \<open>suf\<close>.\<close>

definition endswith :: "string \<Rightarrow> string \<Rightarrow> bool" where
  "endswith s suf = (length suf \<le> length s \<and> drop (length s - length suf) s = suf)"

section \<open>The request handler: content type\<close>

text \<open>
  \<^verbatim>\<open>
  def guess_type(self, path):
      mimetype, encoding = super().guess_type(path)
      if path.endswith('.js'):
          return 'application/javascript'
      return mimetype, encoding
  \<close>
  The base handler belongs to the platform's \<^verbatim>\<open>http.server\<close>, not to the script, and
  is a parameter here: \<open>super_guess_type path\<close> is the value it returns for \<open>path\<close>.
\<close>

definition guess_type :: "(string \<Rightarrow> pyval) \<Rightarrow> string \<Rightarrow> exn + pyval" where
  "guess_type super_guess_type path =
     (case unpack2 (super_guess_type path) of
        Inl x \<Rightarrow> Inl x
      | Inr (mimetype, encoding) \<Rightarrow>
          if endswith path ''.js'' then Inr (PyStr ''application/javascript'')
          else Inr (PyTuple [mimetype, encoding]))"

section \<open>The request handler: response headers\<close>

text \<open>
  What a handler writes while it answers one request: the status line, the header lines
  and the blank line that ends them.
\<close>

datatype line = StatusLine nat | Header string string | BlankLine

record handler =
  headers_buffer :: "line list"
  wfile :: "line list"

text \<open>
  Modelled from the spec: \<^verbatim>\<open>send_header\<close> and the base \<^verbatim>\<open>end_headers\<close> belong to the
  platform's \<^verbatim>\<open>http.server\<close>, not to the script. The spec has the headers of a response
  follow one another in the order they are sent and end with the terminating blank
  line: \<^verbatim>\<open>send_header\<close> puts one more header line at the end of the pending lines, and the
  base \<^verbatim>\<open>end_headers\<close> adds the blank line and writes the pending lines out.
\<close>

definition send_header :: "string \<Rightarrow> string \<Rightarrow> handler \<Rightarrow> handler" where
  "send_header keyword val h = h\<lparr>headers_buffer := headers_buffer h @ [Header keyword val]\<rparr>"

definition super_end_headers :: "handler \<Rightarrow> handler" where
  "super_end_headers h =
     h\<lparr>wfile := wfile h @ headers_buffer h @ [BlankLine], headers_buffer := []\<rparr>"

text \<open>
  \<^verbatim>\<open>
  def end_headers(self):
      self.send_header('Access-Control-Allow-Origin', '*')
      self.send_header('Access-Control-Allow-Methods', 'GET, POST, OPTIONS')
      self.send_header('Access-Control-Allow-Headers', 'Content-Type')
      super().end_headers()
  \<close>
\<close>

definition end_headers :: "handler \<Rightarrow> handler" where
  "end_headers h =
     (let h = send_header ''Access-Control-Allow-Origin'' ''*'' h;
          h = send_header ''Access-Control-Allow-Methods'' ''GET, POST, OPTIONS'' h;
          h = send_header ''Access-Control-Allow-Headers'' ''Content-Type'' h
      in super_end_headers h)"

text \<open>Whether a line is a header line of a given name.\<close>

fun named :: "string \<Rightarrow> line \<Rightarrow> bool" where
  "named k (Header k' v) = (k' = k)"
| "named k _ = False"

section \<open>The script\<close>

text \<open>
  The script changes the working directory, and when it is run as the main program it
  creates the server, prints its notices and serves until it is interrupted. The
  platform's part in this is the environment: the absolute path of the script file, and
  what \<^verbatim>\<open>os.chdir\<close>, the constructor of \<^verbatim>\<open>socketserver.TCPServer\<close> and \<^verbatim>\<open>serve_forever\<close>
  do when they are called. \<^verbatim>\<open>serve_forever\<close> handles requests until something stops it;
  here it runs for ever, raises, or returns.
\<close>

datatype serve_outcome = RunsForever | Raises exn | Returns

record env =
  name :: string
  script_abspath :: string
  launch_cwd :: string
  chdir_raises :: "exn option"
  bind_raises :: "exn option"
  serve_forever_outcome :: serve_outcome

text \<open>
  The state of the process as far as the script touches it, and the calls it has made on
  the platform so far, in order.
\<close>

datatype event = Chdir string | Bind string nat | Print string | ServeForever | ServerClose

record proc =
  cwd :: string
  listening :: "(string \<times> nat) option"
  stdout :: string
  events :: "event list"

text \<open>
  How a run ends: \<^verbatim>\<open>sys.exit(n)\<close>, the end of the script, an exception that nothing
  catches, or not at all.
\<close>

datatype outcome = Exit nat | Finished | Uncaught exn | Forever

text \<open>
  Modelled from the spec: the interpreter, not the script, turns the end of a run into an
  exit status. The end of the script is status 0; an exception that nothing catches is
  shown on the standard error stream and gives a non-zero status, for which 1 stands.
\<close>

fun exit_status :: "outcome \<Rightarrow> nat option" where
  "exit_status (Exit n) = Some n"
| "exit_status Finished = Some 0"
| "exit_status (Uncaught x) = Some 1"
| "exit_status Forever = None"

text \<open>
  Modelled from the spec: \<^verbatim>\<open>os.path.dirname\<close> is the platform's; the spec calls its
  result the parent directory. On a POSIX path it is what stands before the last slash,
  without the slashes at its end unless it consists of slashes only.
\<close>

definition dirname :: "string \<Rightarrow> string" where
  "dirname p =
     (let head = rev (dropWhile (\<lambda>c. c \<noteq> CHR ''/'') (rev p))
      in if head \<noteq> [] \<and> head \<noteq> replicate (length head) (CHR ''/'')
         then rev (dropWhile (\<lambda>c. c = CHR ''/'') (rev head)) else head)"

text \<open>
  \<^verbatim>\<open>project_root = os.path.dirname(os.path.dirname(os.path.abspath(__file__)))\<close>
\<close>

definition project_root :: "env \<Rightarrow> string" where
  "project_root e = dirname (dirname (script_abspath e))"

definition PORT :: nat where
  "PORT = 8000"

text \<open>\<^verbatim>\<open>str(n)\<close> for a non-negative integer, as the f-strings render \<^verbatim>\<open>PORT\<close>.\<close>

fun str_nat :: "nat \<Rightarrow> string" where
  "str_nat n =
     (if n < 10 then [''0123456789'' ! n]
      else str_nat (n div 10) @ [''0123456789'' ! (n mod 10)])"

declare str_nat.simps [simp del]

text \<open>
  Each call on the platform is recorded when it is made; its effect on the process is
  there only if it did not raise.
\<close>

definition chdir :: "env \<Rightarrow> string \<Rightarrow> proc \<Rightarrow> proc \<times> exn option" where
  "chdir e d p =
     (case chdir_raises e of
        Some x \<Rightarrow> (p\<lparr>events := events p @ [Chdir d]\<rparr>, Some x)
      | None \<Rightarrow> (p\<lparr>cwd := d, events := events p @ [Chdir d]\<rparr>, None))"

definition TCPServer :: "env \<Rightarrow> string \<times> nat \<Rightarrow> proc \<Rightarrow> proc \<times> exn option" where
  "TCPServer e addr p =
     (case bind_raises e of
        Some x \<Rightarrow> (p\<lparr>events := events p @ [Bind (fst addr) (snd addr)]\<rparr>, Some x)
      | None \<Rightarrow>
          (p\<lparr>listening := Some addr, events := events p @ [Bind (fst addr) (snd addr)]\<rparr>, None))"

definition server_close :: "proc \<Rightarrow> proc" where
  "server_close p = p\<lparr>listening := None, events := events p @ [ServerClose]\<rparr>"

definition print :: "string \<Rightarrow> proc \<Rightarrow> proc" where
  "print s p = p\<lparr>stdout := stdout p @ s @ ''\<newline>'', events := events p @ [Print s]\<rparr>"

definition serve_forever :: "env \<Rightarrow> proc \<Rightarrow> proc \<times> serve_outcome" where
  "serve_forever e p = (p\<lparr>events := events p @ [ServeForever]\<rparr>, serve_forever_outcome e)"

text \<open>
  \<^verbatim>\<open>
  with socketserver.TCPServer(("", PORT), CustomHTTPRequestHandler) as httpd:
      print(f"Serving at http://localhost:{PORT}")
      print(f"Examples available at:")
      print(f"  http://localhost:{PORT}/examples/basic-usage-simple.html")
      print(f"  http://localhost:{PORT}/examples/basic-usage.html")
      print(f"\nPress Ctrl+C to stop the server")
      try:
          httpd.serve_forever()
      except KeyboardInterrupt:
          print("\nServer stopped")
          sys.exit(0)
  \<close>
  \<open>announce\<close> is the five \<^verbatim>\<open>print\<close> statements and \<open>with_httpd\<close> the whole body of the
  \<^verbatim>\<open>with\<close> statement once the server exists. Leaving the body, by its end or by an
  exception (\<^verbatim>\<open>sys.exit\<close> raises one), closes the server.
\<close>

definition announce :: "proc \<Rightarrow> proc" where
  "announce p =
     (let p = print (''Serving at http://localhost:'' @ str_nat PORT) p;
          p = print ''Examples available at:'' p;
          p = print (''  http://localhost:'' @ str_nat PORT @ ''/examples/basic-usage-simple.html'') p;
          p = print (''  http://localhost:'' @ str_nat PORT @ ''/examples/basic-usage.html'') p
      in print ''\<newline>Press Ctrl+C to stop the server'' p)"

definition with_httpd :: "env \<Rightarrow> proc \<Rightarrow> proc \<times> outcome" where
  "with_httpd e p =
     (case serve_forever e (announce p) of
        (p, RunsForever) \<Rightarrow> (p, Forever)
      | (p, Raises KeyboardInterrupt) \<Rightarrow>
          (server_close (print ''\<newline>Server stopped'' p), Exit 0)
      | (p, Raises x) \<Rightarrow> (server_close p, Uncaught x)
      | (p, Returns) \<Rightarrow> (server_close p, Finished))"

text \<open>
  The whole script: the change of directory at module level, then the main block under
  \<^verbatim>\<open>if __name__ == "__main__"\<close>. Nothing in the script catches what \<^verbatim>\<open>os.chdir\<close> or the
  constructor of the server raise.
\<close>

definition run :: "env \<Rightarrow> proc \<Rightarrow> proc \<times> outcome" where
  "run e p0 =
     (case chdir e (project_root e) p0 of
        (p, Some x) \<Rightarrow> (p, Uncaught x)
      | (p, None) \<Rightarrow>
          if name e = ''__main__'' then
            (case TCPServer e ('''', PORT) p of
               (p, Some x) \<Rightarrow> (p, Uncaught x)
             | (p, None) \<Rightarrow> with_httpd e p)
          else (p, Finished))"

text \<open>
  A run of the script from the state in which the interpreter starts it: the working
  directory is the one the process was launched in, nothing is printed, no socket is
  open.
\<close>

definition start :: "env \<Rightarrow> proc" where
  "start e = \<lparr>cwd = launch_cwd e, listening = None, stdout = [], events = []\<rparr>"

definition script :: "env \<Rightarrow> proc \<times> outcome" where
  "script e = run e (start e)"

section \<open>Properties of the content type\<close>

lemma endswith_iff: "endswith s suf \<longleftrightarrow> (\<exists>pre. s = pre @ suf)"
proof
  assume "endswith s suf"
  then have "s = take (length s - length suf) s @ suf"
    by (metis append_take_drop_id endswith_def)
  then show "\<exists>pre. s = pre @ suf" ..
next
  assume "\<exists>pre. s = pre @ suf"
  then show "endswith s suf"
    by (auto simp: endswith_def)
qed

lemma endswith_same_length:
  assumes "endswith s a" and "endswith s b" and "length a = length b"
  shows "a = b"
  using assms by (simp add: endswith_def)

lemma unpack2_Inr_iff:
  "unpack2 v = Inr (a, b) \<longleftrightarrow>
     v = PyTuple [a, b] \<or> (\<exists>c d. v = PyStr [c, d] \<and> a = PyStr [c] \<and> b = PyStr [d])"
  by (cases v rule: unpack2.cases) auto

text \<open>
  When the base handler does return a pair, the override returns the bare string for a
  \<^verbatim>\<open>.js\<close> path and hands the pair back for any other path.
\<close>

lemma guess_type_pair_js:
  "super_guess_type path = PyTuple [m, e] \<Longrightarrow> endswith path ''.js'' \<Longrightarrow>
   guess_type super_guess_type path = Inr (PyStr ''application/javascript'')"
  by (simp add: guess_type_def)

lemma guess_type_pair_other:
  "super_guess_type path = PyTuple [m, e] \<Longrightarrow> \<not> endswith path ''.js'' \<Longrightarrow>
   guess_type super_guess_type path = Inr (super_guess_type path)"
  by (simp add: guess_type_def)

text \<open>
  When the base handler returns a single string, as a content type is, the destructuring
  raises unless the string happens to have two characters.
\<close>

lemma guess_type_str_raises:
  "super_guess_type path = PyStr s \<Longrightarrow> length s \<noteq> 2 \<Longrightarrow>
   guess_type super_guess_type path = Inl ValueError"
  by (cases "super_guess_type path" rule: unpack2.cases) (auto simp: guess_type_def)

text \<open>The suffix test compares characters, so no other casing of \<^verbatim>\<open>.js\<close> passes it.\<close>

lemma endswith_other_casing:
  "endswith path suf \<Longrightarrow> suf \<in> {''.JS'', ''.Js'', ''.jS''} \<Longrightarrow> \<not> endswith path ''.js''"
  by (auto dest: endswith_same_length)

lemma guess_type_never_override_other_casing:
  "endswith path suf \<Longrightarrow> suf \<in> {''.JS'', ''.Js'', ''.jS''} \<Longrightarrow>
   guess_type super_guess_type path \<noteq> Inr (PyStr ''application/javascript'')"
  using endswith_other_casing [of path suf]
  by (auto simp: guess_type_def split: sum.splits)

text \<open>
  C1. For a path ending in \<^verbatim>\<open>.js\<close> the override is meant to return
  \<^verbatim>\<open>application/javascript\<close> whatever the platform reports. The platform's base handler
  reports a single string such as \<^verbatim>\<open>text/javascript\<close>; at that value the destructuring
  on the first line of \<^verbatim>\<open>guess_type\<close> raises \<^verbatim>\<open>ValueError\<close> before the suffix is
  looked at, so nothing is returned.
\<close>

theorem guess_type_js_raises_on_str:
  "guess_type (\<lambda>p. PyStr ''text/javascript'') ''/styles/app.js'' = Inl ValueError"
  by (simp add: guess_type_def)

text \<open>
  C2. For a path not ending in \<^verbatim>\<open>.js\<close> the override is meant to return the platform's
  guess unchanged. When the base handler reports the single string \<^verbatim>\<open>text/html\<close>, the
  same destructuring raises \<^verbatim>\<open>ValueError\<close> and the guess is not returned.
\<close>

theorem guess_type_html_raises_on_str:
  "guess_type (\<lambda>p. PyStr ''text/html'') ''/examples/basic-usage.html'' = Inl ValueError"
  by (simp add: guess_type_def)

text \<open>
  C9. The shape of the result depends on the branch. Whenever the base handler's result
  destructures into two items \<open>m\<close> and \<open>e\<close>, a path ending in \<^verbatim>\<open>.js\<close> gets the bare
  string \<^verbatim>\<open>application/javascript\<close>, which is no tuple, and every other path gets the
  two-element tuple \<open>(m, e)\<close>. And \<^verbatim>\<open>guess_type\<close> returns a value only if the base
  handler's result destructures into two items; otherwise it raises what the
  destructuring raises.
\<close>

theorem guess_type_return_shape:
  "(unpack2 (super_guess_type path) = Inr (m, e) \<longrightarrow>
      guess_type super_guess_type path =
        Inr (if endswith path ''.js'' then PyStr ''application/javascript'' else PyTuple [m, e])
      \<and> (endswith path ''.js'' \<longrightarrow> (\<forall>ys. guess_type super_guess_type path \<noteq> Inr (PyTuple ys))))
   \<and> ((\<exists>v. guess_type super_guess_type path = Inr v) \<longleftrightarrow>
        (\<exists>m' e'. unpack2 (super_guess_type path) = Inr (m', e')))
   \<and> (\<forall>x. unpack2 (super_guess_type path) = Inl x \<longrightarrow> guess_type super_guess_type path = Inl x)"
  by (auto simp: guess_type_def split: sum.splits)

theorem guess_type_return_shape_witness:
  "guess_type (\<lambda>p. PyTuple [PyStr ''text/javascript'', PyNone]) ''/styles/app.js''
     = Inr (PyStr ''application/javascript'')
   \<and> guess_type (\<lambda>p. PyTuple [PyStr ''text/html'', PyNone]) ''/index.html''
     = Inr (PyTuple [PyStr ''text/html'', PyNone])
   \<and> guess_type (\<lambda>p. PyNone) ''/index.html'' = Inl TypeError"
  using guess_type_return_shape
          [of "\<lambda>p. PyTuple [PyStr ''text/javascript'', PyNone]" "''/styles/app.js''"
              "PyStr ''text/javascript''" PyNone]
        guess_type_return_shape
          [of "\<lambda>p. PyTuple [PyStr ''text/html'', PyNone]" "''/index.html''"
              "PyStr ''text/html''" PyNone]
        guess_type_return_shape [of "\<lambda>p. PyNone" "''/index.html''"]
  by (simp add: endswith_def)

text \<open>
  C10. The override is case-sensitive: a path ending in \<^verbatim>\<open>.JS\<close> does not get
  \<^verbatim>\<open>application/javascript\<close> and is meant to get the platform's guess instead. When the
  base handler reports a single string, the destructuring raises \<^verbatim>\<open>ValueError\<close> here as
  well, and the guess is not returned.
\<close>

theorem guess_type_upper_js_raises_on_str:
  "guess_type (\<lambda>p. PyStr ''text/javascript'') ''/lib/APP.JS'' = Inl ValueError"
  by (simp add: guess_type_def)


section \<open>Properties of the response headers\<close>

text \<open>
  C3. Whatever the handler has pending when the headers of a response are ended (any
  status line, any headers of the base logic), the lines written for the response are
  the pending ones, then the three CORS headers with their literal values, then the
  blank line, and nothing stays pending. Each of the three names occurs once more than
  the base logic had set it: exactly once when the base logic had not set it.
\<close>

theorem end_headers_cors:
  "wfile (end_headers h) =
     wfile h @ headers_buffer h @
       [Header ''Access-Control-Allow-Origin'' ''*'',
        Header ''Access-Control-Allow-Methods'' ''GET, POST, OPTIONS'',
        Header ''Access-Control-Allow-Headers'' ''Content-Type'',
        BlankLine]
   \<and> headers_buffer (end_headers h) = []
   \<and> (\<forall>k \<in> {''Access-Control-Allow-Origin'', ''Access-Control-Allow-Methods'',
             ''Access-Control-Allow-Headers''}.
        length (filter (named k) (drop (length (wfile h)) (wfile (end_headers h))))
          = Suc (length (filter (named k) (headers_buffer h)))
        \<and> ((\<forall>l \<in> set (headers_buffer h). \<not> named k l) \<longrightarrow>
             length (filter (named k) (drop (length (wfile h)) (wfile (end_headers h)))) = 1))"
  by (simp add: end_headers_def send_header_def super_end_headers_def filter_empty_conv)

theorem end_headers_cors_witness:
  "wfile (end_headers \<lparr>headers_buffer = [StatusLine 404, Header ''Content-Type'' ''text/html''],
                       wfile = []\<rparr>) =
     [StatusLine 404, Header ''Content-Type'' ''text/html'',
      Header ''Access-Control-Allow-Origin'' ''*'',
      Header ''Access-Control-Allow-Methods'' ''GET, POST, OPTIONS'',
      Header ''Access-Control-Allow-Headers'' ''Content-Type'',
      BlankLine]
   \<and> length (filter (named ''Access-Control-Allow-Origin'')
         (wfile (end_headers \<lparr>headers_buffer = [StatusLine 404, Header ''Content-Type'' ''text/html''],
                              wfile = []\<rparr>))) = 1"
  using end_headers_cors
          [of "\<lparr>headers_buffer = [StatusLine 404, Header ''Content-Type'' ''text/html''],
                wfile = []\<rparr>"]
  by simp

section \<open>Properties of the script\<close>

lemma str_nat_PORT: "str_nat PORT = ''8000''"
  by (simp add: PORT_def str_nat.simps)

lemma dirname_append:
  assumes "d \<noteq> []" and "last d \<noteq> CHR ''/''" and "CHR ''/'' \<notin> set n"
  shows "dirname (d @ ''/'' @ n) = d"
proof -
  have "dropWhile (\<lambda>c. c \<noteq> CHR ''/'') (rev n) = []"
    using assms(3) by auto
  then have "dropWhile (\<lambda>c. c \<noteq> CHR ''/'') (rev (d @ ''/'' @ n)) = CHR ''/'' # rev d"
    by (simp add: dropWhile_append3)
  then have head: "rev (dropWhile (\<lambda>c. c \<noteq> CHR ''/'') (rev (d @ ''/'' @ n))) = d @ ''/''"
    by simp
  have "hd (rev d) \<noteq> CHR ''/''"
    using assms(1,2) by (simp add: hd_rev)
  then have strip: "dropWhile (\<lambda>c. c = CHR ''/'') (rev (d @ ''/'')) = rev d"
    using assms(1) by (cases "rev d") auto
  have "d @ ''/'' \<noteq> replicate (length (d @ ''/'')) (CHR ''/'')"
  proof
    assume "d @ ''/'' = replicate (length (d @ ''/'')) (CHR ''/'')"
    then have "set (d @ ''/'') \<subseteq> {CHR ''/''}"
      by (metis set_replicate_conv_if empty_subsetI subset_refl)
    then show False
      using assms(1,2) last_in_set by fastforce
  qed
  then show ?thesis
    unfolding dirname_def Let_def head strip by simp
qed

text \<open>The script file \<open>f\<close> in the directory \<open>r/d\<close>: two steps up is \<open>r\<close>.\<close>

lemma dirname_dirname:
  assumes "r \<noteq> []" and "last r \<noteq> CHR ''/''" and "d \<noteq> []" and "CHR ''/'' \<notin> set d"
    and "CHR ''/'' \<notin> set f"
  shows "dirname (dirname (r @ ''/'' @ d @ ''/'' @ f)) = r"
proof -
  have "last (r @ ''/'' @ d) \<noteq> CHR ''/''"
    using assms(3,4) last_in_set by fastforce
  then have "dirname ((r @ ''/'' @ d) @ ''/'' @ f) = r @ ''/'' @ d"
    using assms(5) by (intro dirname_append) simp_all
  then show ?thesis
    using dirname_append [of r d] assms(1,2,4) by simp
qed

text \<open>What each call leaves in the state of the process.\<close>

lemma print_sel [simp]:
  "events (print s p) = events p @ [Print s]"
  "stdout (print s p) = stdout p @ s @ ''\<newline>''"
  "cwd (print s p) = cwd p"
  "listening (print s p) = listening p"
  by (simp_all add: print_def)

lemma server_close_sel [simp]:
  "events (server_close p) = events p @ [ServerClose]"
  "stdout (server_close p) = stdout p"
  "cwd (server_close p) = cwd p"
  "listening (server_close p) = None"
  by (simp_all add: server_close_def)

lemma announce_events:
  "events (announce p) =
     events p @
       [Print ''Serving at http://localhost:8000'',
        Print ''Examples available at:'',
        Print ''  http://localhost:8000/examples/basic-usage-simple.html'',
        Print ''  http://localhost:8000/examples/basic-usage.html'',
        Print ''\<newline>Press Ctrl+C to stop the server'']"
  by (simp add: announce_def Let_def str_nat_PORT)

lemma announce_stdout:
  "stdout (announce p) =
     stdout p @
       ''Serving at http://localhost:8000\<newline>'' @
       ''Examples available at:\<newline>'' @
       ''  http://localhost:8000/examples/basic-usage-simple.html\<newline>'' @
       ''  http://localhost:8000/examples/basic-usage.html\<newline>'' @
       ''\<newline>Press Ctrl+C to stop the server\<newline>''"
  by (simp add: announce_def Let_def str_nat_PORT)

lemma announce_sel [simp]:
  "cwd (announce p) = cwd p"
  "listening (announce p) = listening p"
  by (simp_all add: announce_def Let_def)

text \<open>The body of the \<^verbatim>\<open>with\<close> statement, by what \<^verbatim>\<open>serve_forever\<close> does.\<close>

lemma with_httpd_RunsForever:
  "serve_forever_outcome e = RunsForever \<Longrightarrow>
   with_httpd e p = ((announce p)\<lparr>events := events (announce p) @ [ServeForever]\<rparr>, Forever)"
  by (simp add: with_httpd_def serve_forever_def)

lemma with_httpd_KeyboardInterrupt:
  "serve_forever_outcome e = Raises KeyboardInterrupt \<Longrightarrow>
   with_httpd e p =
     (server_close (print ''\<newline>Server stopped''
        ((announce p)\<lparr>events := events (announce p) @ [ServeForever]\<rparr>)), Exit 0)"
  by (simp add: with_httpd_def serve_forever_def)

lemma with_httpd_Raises:
  "serve_forever_outcome e = Raises x \<Longrightarrow> x \<noteq> KeyboardInterrupt \<Longrightarrow>
   with_httpd e p =
     (server_close ((announce p)\<lparr>events := events (announce p) @ [ServeForever]\<rparr>), Uncaught x)"
  by (cases x) (simp_all add: with_httpd_def serve_forever_def)

lemma with_httpd_Returns:
  "serve_forever_outcome e = Returns \<Longrightarrow>
   with_httpd e p =
     (server_close ((announce p)\<lparr>events := events (announce p) @ [ServeForever]\<rparr>), Finished)"
  by (simp add: with_httpd_def serve_forever_def)

lemma with_httpd_events:
  "\<exists>rest. events (fst (with_httpd e p)) = events (announce p) @ ServeForever # rest
     \<and> set rest \<subseteq> {Print ''\<newline>Server stopped'', ServerClose}"
proof (cases "serve_forever_outcome e")
  case RunsForever
  then show ?thesis by (simp add: with_httpd_RunsForever)
next
  case (Raises x)
  then show ?thesis
    by (cases "x = KeyboardInterrupt")
       (simp_all add: with_httpd_KeyboardInterrupt with_httpd_Raises)
next
  case Returns
  then show ?thesis by (simp add: with_httpd_Returns)
qed

lemma with_httpd_stdout:
  "\<exists>more. stdout (fst (with_httpd e p)) = stdout (announce p) @ more"
proof (cases "serve_forever_outcome e")
  case RunsForever
  then show ?thesis by (simp add: with_httpd_RunsForever)
next
  case (Raises x)
  then show ?thesis
    by (cases "x = KeyboardInterrupt")
       (simp_all add: with_httpd_KeyboardInterrupt with_httpd_Raises)
next
  case Returns
  then show ?thesis by (simp add: with_httpd_Returns)
qed

lemma with_httpd_cwd: "cwd (fst (with_httpd e p)) = cwd p"
proof (cases "serve_forever_outcome e")
  case RunsForever
  then show ?thesis by (simp add: with_httpd_RunsForever)
next
  case (Raises x)
  then show ?thesis
    by (cases "x = KeyboardInterrupt")
       (simp_all add: with_httpd_KeyboardInterrupt with_httpd_Raises)
next
  case Returns
  then show ?thesis by (simp add: with_httpd_Returns)
qed

text \<open>The script, by how far it gets.\<close>

lemma run_chdir_raises:
  "chdir_raises e = Some x \<Longrightarrow>
   run e p = (p\<lparr>events := events p @ [Chdir (project_root e)]\<rparr>, Uncaught x)"
  by (simp add: run_def chdir_def)

lemma run_imported:
  "chdir_raises e = None \<Longrightarrow> name e \<noteq> ''__main__'' \<Longrightarrow>
   run e p = (p\<lparr>cwd := project_root e, events := events p @ [Chdir (project_root e)]\<rparr>, Finished)"
  by (simp add: run_def chdir_def)

lemma run_bind_raises:
  "chdir_raises e = None \<Longrightarrow> name e = ''__main__'' \<Longrightarrow> bind_raises e = Some x \<Longrightarrow>
   run e p =
     (p\<lparr>cwd := project_root e,
        events := events p @ [Chdir (project_root e), Bind '''' 8000]\<rparr>, Uncaught x)"
  by (simp add: run_def chdir_def TCPServer_def PORT_def)

lemma run_serves:
  "chdir_raises e = None \<Longrightarrow> name e = ''__main__'' \<Longrightarrow> bind_raises e = None \<Longrightarrow>
   run e p =
     with_httpd e
       (p\<lparr>cwd := project_root e, listening := Some ('''', 8000),
          events := events p @ [Chdir (project_root e), Bind '''' 8000]\<rparr>)"
  by (simp add: run_def chdir_def TCPServer_def PORT_def)

lemma script_chdir_raises:
  "chdir_raises e = Some x \<Longrightarrow>
   script e =
     (\<lparr>cwd = launch_cwd e, listening = None, stdout = [], events = [Chdir (project_root e)]\<rparr>,
      Uncaught x)"
  by (simp add: script_def start_def run_chdir_raises)

lemma script_imported:
  "chdir_raises e = None \<Longrightarrow> name e \<noteq> ''__main__'' \<Longrightarrow>
   script e =
     (\<lparr>cwd = project_root e, listening = None, stdout = [], events = [Chdir (project_root e)]\<rparr>,
      Finished)"
  by (simp add: script_def start_def run_imported)

lemma script_bind_raises:
  "chdir_raises e = None \<Longrightarrow> name e = ''__main__'' \<Longrightarrow> bind_raises e = Some x \<Longrightarrow>
   script e =
     (\<lparr>cwd = project_root e, listening = None, stdout = [],
       events = [Chdir (project_root e), Bind '''' 8000]\<rparr>, Uncaught x)"
  by (simp add: script_def start_def run_bind_raises)

lemma script_serves:
  "chdir_raises e = None \<Longrightarrow> name e = ''__main__'' \<Longrightarrow> bind_raises e = None \<Longrightarrow>
   script e =
     with_httpd e
       \<lparr>cwd = project_root e, listening = Some ('''', 8000), stdout = [],
        events = [Chdir (project_root e), Bind '''' 8000]\<rparr>"
  by (simp add: script_def start_def run_serves)

lemma script_serves_events:
  assumes "chdir_raises e = None" and "name e = ''__main__''" and "bind_raises e = None"
  shows "\<exists>rest. events (fst (script e)) =
           [Chdir (project_root e), Bind '''' 8000,
            Print ''Serving at http://localhost:8000'',
            Print ''Examples available at:'',
            Print ''  http://localhost:8000/examples/basic-usage-simple.html'',
            Print ''  http://localhost:8000/examples/basic-usage.html'',
            Print ''\<newline>Press Ctrl+C to stop the server'',
            ServeForever] @ rest
         \<and> set rest \<subseteq> {Print ''\<newline>Server stopped'', ServerClose}"
  using with_httpd_events
          [of e "\<lparr>cwd = project_root e, listening = Some ('''', 8000), stdout = [],
                  events = [Chdir (project_root e), Bind '''' 8000]\<rparr>"]
  by (simp add: script_serves [OF assms] announce_events)

lemma script_serves_stdout:
  assumes "chdir_raises e = None" and "name e = ''__main__''" and "bind_raises e = None"
  shows "\<exists>more. stdout (fst (script e)) =
           ''Serving at http://localhost:8000\<newline>'' @
           ''Examples available at:\<newline>'' @
           ''  http://localhost:8000/examples/basic-usage-simple.html\<newline>'' @
           ''  http://localhost:8000/examples/basic-usage.html\<newline>'' @
           ''\<newline>Press Ctrl+C to stop the server\<newline>'' @ more"
  using with_httpd_stdout
          [of e "\<lparr>cwd = project_root e, listening = Some ('''', 8000), stdout = [],
                  events = [Chdir (project_root e), Bind '''' 8000]\<rparr>"]
  by (simp add: script_serves [OF assms] announce_stdout)

text \<open>
  C4. Whatever the environment, the first thing the script does is to change the working
  directory to \<open>project_root\<close>, two \<^verbatim>\<open>dirname\<close> steps above the absolute path of the
  script file, and it does so once: no later call changes the directory, so the change
  comes before the server is created and before any connection is accepted. When the
  change does not raise, the working directory is \<open>project_root\<close> at every end of the
  run. For a script file \<open>f\<close> in a directory \<open>r/d\<close>, \<open>project_root\<close> is \<open>r\<close>, the parent
  of the directory the script is in.
\<close>

theorem startup_chdir_project_root:
  "(\<exists>rest. events (fst (script e)) = Chdir (project_root e) # rest
       \<and> (\<forall>c. Chdir c \<notin> set rest))
   \<and> (chdir_raises e = None \<longrightarrow> cwd (fst (script e)) = project_root e)
   \<and> (script_abspath e = r @ ''/'' @ d @ ''/'' @ f \<and> r \<noteq> [] \<and> last r \<noteq> CHR ''/''
        \<and> d \<noteq> [] \<and> CHR ''/'' \<notin> set d \<and> CHR ''/'' \<notin> set f
      \<longrightarrow> project_root e = r)"
proof (intro conjI impI)
  show "\<exists>rest. events (fst (script e)) = Chdir (project_root e) # rest
          \<and> (\<forall>c. Chdir c \<notin> set rest)"
  proof (cases "chdir_raises e")
    case (Some x)
    then show ?thesis by (simp add: script_chdir_raises)
  next
    case None
    show ?thesis
    proof (cases "name e = ''__main__''")
      case False
      with None show ?thesis by (simp add: script_imported)
    next
      case True
      show ?thesis
      proof (cases "bind_raises e")
        case (Some x)
        with None True show ?thesis by (simp add: script_bind_raises)
      next
        case bind: None
        from script_serves_events [OF None True bind] show ?thesis by auto
      qed
    qed
  qed
next
  assume ok: "chdir_raises e = None"
  show "cwd (fst (script e)) = project_root e"
  proof (cases "name e = ''__main__''")
    case False
    with ok show ?thesis by (simp add: script_imported)
  next
    case True
    show ?thesis
    proof (cases "bind_raises e")
      case (Some x)
      with ok True show ?thesis by (simp add: script_bind_raises)
    next
      case None
      with ok True show ?thesis by (simp add: script_serves with_httpd_cwd)
    qed
  qed
next
  assume "script_abspath e = r @ ''/'' @ d @ ''/'' @ f \<and> r \<noteq> [] \<and> last r \<noteq> CHR ''/''
            \<and> d \<noteq> [] \<and> CHR ''/'' \<notin> set d \<and> CHR ''/'' \<notin> set f"
  then show "project_root e = r"
    using dirname_dirname [of r d f] by (simp add: project_root_def)
qed

theorem startup_chdir_project_root_witness:
  "project_root
     \<lparr>name = ''__main__'', script_abspath = ''/home/dev/oncoprint-js/examples/serve.py'',
      launch_cwd = ''/tmp'', chdir_raises = None, bind_raises = None,
      serve_forever_outcome = RunsForever\<rparr> = ''/home/dev/oncoprint-js''
   \<and> cwd (fst (script
     \<lparr>name = ''__main__'', script_abspath = ''/home/dev/oncoprint-js/examples/serve.py'',
      launch_cwd = ''/tmp'', chdir_raises = None, bind_raises = None,
      serve_forever_outcome = RunsForever\<rparr>)) = ''/home/dev/oncoprint-js''"
  using startup_chdir_project_root
          [of "\<lparr>name = ''__main__'',
                script_abspath = ''/home/dev/oncoprint-js/examples/serve.py'',
                launch_cwd = ''/tmp'', chdir_raises = None, bind_raises = None,
                serve_forever_outcome = RunsForever\<rparr>"
              "''/home/dev/oncoprint-js''" "''examples''" "''serve.py''"]
  by simp

text \<open>
  C5. When the script is run as the main program and has changed directory, it creates
  the server on the address \<^verbatim>\<open>("", 8000)\<close>, once. If the server is created and serves, the
  socket listens on that address. If creating it raises \<open>x\<close> (the port is taken, the
  privilege is missing), nothing catches \<open>x\<close>: the run ends at once with \<open>x\<close> reported and a
  non-zero status, no second attempt is made, nothing has been printed and no socket
  listens.
\<close>

theorem bind_wildcard_8000_fail_fast:
  "name e = ''__main__'' \<Longrightarrow> chdir_raises e = None \<Longrightarrow>
     (\<exists>pre post. events (fst (script e)) = pre @ Bind '''' 8000 # post
        \<and> (\<forall>a n. Bind a n \<notin> set pre \<union> set post))
   \<and> PORT = 8000
   \<and> (bind_raises e = None \<and> serve_forever_outcome e = RunsForever \<longrightarrow>
        listening (fst (script e)) = Some ('''', 8000))
   \<and> (bind_raises e = Some x \<longrightarrow>
        snd (script e) = Uncaught x
        \<and> (\<exists>n. exit_status (snd (script e)) = Some n \<and> 0 < n)
        \<and> events (fst (script e)) = [Chdir (project_root e), Bind '''' 8000]
        \<and> stdout (fst (script e)) = [] \<and> listening (fst (script e)) = None)"
proof (intro conjI impI)
  assume main: "name e = ''__main__''" and ok: "chdir_raises e = None"
  show "\<exists>pre post. events (fst (script e)) = pre @ Bind '''' 8000 # post
          \<and> (\<forall>a n. Bind a n \<notin> set pre \<union> set post)"
  proof (cases "bind_raises e")
    case (Some y)
    then have "events (fst (script e)) = [Chdir (project_root e)] @ Bind '''' 8000 # []"
      using main ok by (simp add: script_bind_raises)
    moreover have "\<forall>a n. Bind a n \<notin> set [Chdir (project_root e)] \<union> set []"
      by simp
    ultimately show ?thesis by blast
  next
    case None
    from script_serves_events [OF ok main None] obtain rest where
      ev: "events (fst (script e)) =
             [Chdir (project_root e)] @ Bind '''' 8000 #
               ([Print ''Serving at http://localhost:8000'',
                 Print ''Examples available at:'',
                 Print ''  http://localhost:8000/examples/basic-usage-simple.html'',
                 Print ''  http://localhost:8000/examples/basic-usage.html'',
                 Print ''\<newline>Press Ctrl+C to stop the server'',
                 ServeForever] @ rest)"
      and rest: "set rest \<subseteq> {Print ''\<newline>Server stopped'', ServerClose}"
      by auto
    have "\<forall>a n. Bind a n \<notin> set [Chdir (project_root e)] \<union>
            set ([Print ''Serving at http://localhost:8000'',
                 Print ''Examples available at:'',
                 Print ''  http://localhost:8000/examples/basic-usage-simple.html'',
                 Print ''  http://localhost:8000/examples/basic-usage.html'',
                 Print ''\<newline>Press Ctrl+C to stop the server'',
                 ServeForever] @ rest)"
      using rest by auto
    with ev show ?thesis by blast
  qed
next
  show "PORT = 8000" by (simp add: PORT_def)
next
  assume main: "name e = ''__main__''" and ok: "chdir_raises e = None"
    and "bind_raises e = None \<and> serve_forever_outcome e = RunsForever"
  then show "listening (fst (script e)) = Some ('''', 8000)"
    by (simp add: script_serves with_httpd_RunsForever)
next
  assume main: "name e = ''__main__''" and ok: "chdir_raises e = None"
    and raises: "bind_raises e = Some x"
  note s = script_bind_raises [OF ok main raises]
  show "snd (script e) = Uncaught x" by (simp add: s)
  show "\<exists>n. exit_status (snd (script e)) = Some n \<and> 0 < n" by (simp add: s)
  show "events (fst (script e)) = [Chdir (project_root e), Bind '''' 8000]" by (simp add: s)
  show "stdout (fst (script e)) = []" by (simp add: s)
  show "listening (fst (script e)) = None" by (simp add: s)
qed

theorem bind_wildcard_8000_fail_fast_witness:
  "snd (script
     \<lparr>name = ''__main__'', script_abspath = ''/home/dev/oncoprint-js/examples/serve.py'',
      launch_cwd = ''/tmp'', chdir_raises = None,
      bind_raises = Some (OSError ''Address already in use''),
      serve_forever_outcome = RunsForever\<rparr>) = Uncaught (OSError ''Address already in use'')
   \<and> exit_status (snd (script
     \<lparr>name = ''__main__'', script_abspath = ''/home/dev/oncoprint-js/examples/serve.py'',
      launch_cwd = ''/tmp'', chdir_raises = None,
      bind_raises = Some (OSError ''Address already in use''),
      serve_forever_outcome = RunsForever\<rparr>)) \<noteq> Some 0
   \<and> stdout (fst (script
     \<lparr>name = ''__main__'', script_abspath = ''/home/dev/oncoprint-js/examples/serve.py'',
      launch_cwd = ''/tmp'', chdir_raises = None,
      bind_raises = Some (OSError ''Address already in use''),
      serve_forever_outcome = RunsForever\<rparr>)) = []"
  using bind_wildcard_8000_fail_fast
          [of "\<lparr>name = ''__main__'',
                script_abspath = ''/home/dev/oncoprint-js/examples/serve.py'',
                launch_cwd = ''/tmp'', chdir_raises = None,
                bind_raises = Some (OSError ''Address already in use''),
                serve_forever_outcome = RunsForever\<rparr>"
              "OSError ''Address already in use''"]
  by simp

text \<open>
  C6. When the server has been created and \<^verbatim>\<open>serve_forever\<close> is interrupted (it raises
  \<^verbatim>\<open>KeyboardInterrupt\<close>), the script prints the stop notice as the last thing on the
  standard output, closes the server and ends through \<^verbatim>\<open>sys.exit(0)\<close>: the exit status
  is 0.
\<close>

theorem interrupt_stops_with_status_0:
  "name e = ''__main__'' \<Longrightarrow> chdir_raises e = None \<Longrightarrow> bind_raises e = None \<Longrightarrow>
   serve_forever_outcome e = Raises KeyboardInterrupt \<Longrightarrow>
     snd (script e) = Exit 0
   \<and> exit_status (snd (script e)) = Some 0
   \<and> (\<exists>pre. stdout (fst (script e)) = pre @ ''\<newline>Server stopped\<newline>'')
   \<and> (\<exists>pre. events (fst (script e)) =
          pre @ [ServeForever, Print ''\<newline>Server stopped'', ServerClose])
   \<and> listening (fst (script e)) = None"
proof -
  assume main: "name e = ''__main__''" and ok: "chdir_raises e = None"
    and bound: "bind_raises e = None"
    and interrupted: "serve_forever_outcome e = Raises KeyboardInterrupt"
  note s = script_serves [OF ok main bound] with_httpd_KeyboardInterrupt [OF interrupted]
  have "snd (script e) = Exit 0"
    by (simp add: s)
  moreover have "\<exists>pre. stdout (fst (script e)) = pre @ ''\<newline>Server stopped\<newline>''"
    by (simp add: s)
  moreover have "\<exists>pre. events (fst (script e)) =
      pre @ [ServeForever, Print ''\<newline>Server stopped'', ServerClose]"
    by (simp add: s)
  moreover have "listening (fst (script e)) = None"
    by (simp add: s)
  ultimately show ?thesis
    by simp
qed

theorem interrupt_stops_with_status_0_witness:
  "exit_status (snd (script
     \<lparr>name = ''__main__'', script_abspath = ''/home/dev/oncoprint-js/examples/serve.py'',
      launch_cwd = ''/tmp'', chdir_raises = None, bind_raises = None,
      serve_forever_outcome = Raises KeyboardInterrupt\<rparr>)) = Some 0
   \<and> (\<exists>pre. stdout (fst (script
     \<lparr>name = ''__main__'', script_abspath = ''/home/dev/oncoprint-js/examples/serve.py'',
      launch_cwd = ''/tmp'', chdir_raises = None, bind_raises = None,
      serve_forever_outcome = Raises KeyboardInterrupt\<rparr>)) =
        pre @ ''\<newline>Server stopped\<newline>'')"
  using interrupt_stops_with_status_0
          [of "\<lparr>name = ''__main__'',
                script_abspath = ''/home/dev/oncoprint-js/examples/serve.py'',
                launch_cwd = ''/tmp'', chdir_raises = None, bind_raises = None,
                serve_forever_outcome = Raises KeyboardInterrupt\<rparr>"]
  by simp

text \<open>
  C7. When the script is run as the main program, has changed directory and has created
  the server, it prints, before it enters \<^verbatim>\<open>serve_forever\<close>: the line with the serving
  URL, the heading of the examples, the two example URLs under that base, and the hint
  to press Ctrl+C. These five lines are the beginning of the standard output.
\<close>

theorem startup_notices:
  "name e = ''__main__'' \<Longrightarrow> chdir_raises e = None \<Longrightarrow> bind_raises e = None \<Longrightarrow>
     (\<exists>rest. events (fst (script e)) =
        [Chdir (project_root e), Bind '''' 8000,
         Print ''Serving at http://localhost:8000'',
         Print ''Examples available at:'',
         Print ''  http://localhost:8000/examples/basic-usage-simple.html'',
         Print ''  http://localhost:8000/examples/basic-usage.html'',
         Print ''\<newline>Press Ctrl+C to stop the server'',
         ServeForever] @ rest)
   \<and> (\<exists>more. stdout (fst (script e)) =
        ''Serving at http://localhost:8000\<newline>'' @
        ''Examples available at:\<newline>'' @
        ''  http://localhost:8000/examples/basic-usage-simple.html\<newline>'' @
        ''  http://localhost:8000/examples/basic-usage.html\<newline>'' @
        ''\<newline>Press Ctrl+C to stop the server\<newline>'' @ more)"
proof -
  assume main: "name e = ''__main__''" and ok: "chdir_raises e = None"
    and bound: "bind_raises e = None"
  from script_serves_events [OF ok main bound]
  have "\<exists>rest. events (fst (script e)) =
        [Chdir (project_root e), Bind '''' 8000,
         Print ''Serving at http://localhost:8000'',
         Print ''Examples available at:'',
         Print ''  http://localhost:8000/examples/basic-usage-simple.html'',
         Print ''  http://localhost:8000/examples/basic-usage.html'',
         Print ''\<newline>Press Ctrl+C to stop the server'',
         ServeForever] @ rest"
    by blast
  then show ?thesis
    using script_serves_stdout [OF ok main bound] by (rule conjI)
qed

theorem startup_notices_witness:
  "(\<exists>rest. events (fst (script
     \<lparr>name = ''__main__'', script_abspath = ''/home/dev/oncoprint-js/examples/serve.py'',
      launch_cwd = ''/tmp'', chdir_raises = None, bind_raises = None,
      serve_forever_outcome = RunsForever\<rparr>)) =
        [Chdir (project_root
           \<lparr>name = ''__main__'', script_abspath = ''/home/dev/oncoprint-js/examples/serve.py'',
            launch_cwd = ''/tmp'', chdir_raises = None, bind_raises = None,
            serve_forever_outcome = RunsForever\<rparr>),
         Bind '''' 8000,
         Print ''Serving at http://localhost:8000'',
         Print ''Examples available at:'',
         Print ''  http://localhost:8000/examples/basic-usage-simple.html'',
         Print ''  http://localhost:8000/examples/basic-usage.html'',
         Print ''\<newline>Press Ctrl+C to stop the server'',
         ServeForever] @ rest)
   \<and> (\<exists>more. stdout (fst (script
     \<lparr>name = ''__main__'', script_abspath = ''/home/dev/oncoprint-js/examples/serve.py'',
      launch_cwd = ''/tmp'', chdir_raises = None, bind_raises = None,
      serve_forever_outcome = RunsForever\<rparr>)) =
        ''Serving at http://localhost:8000\<newline>'' @
        ''Examples available at:\<newline>'' @
        ''  http://localhost:8000/examples/basic-usage-simple.html\<newline>'' @
        ''  http://localhost:8000/examples/basic-usage.html\<newline>'' @
        ''\<newline>Press Ctrl+C to stop the server\<newline>'' @ more)"
  using startup_notices
          [of "\<lparr>name = ''__main__'',
                script_abspath = ''/home/dev/oncoprint-js/examples/serve.py'',
                launch_cwd = ''/tmp'', chdir_raises = None, bind_raises = None,
                serve_forever_outcome = RunsForever\<rparr>"]
  by simp

end
